theory Spec2Isabelle
  imports Complex_Main "HOL-Library.Sublist"
begin

section \<open>Python values\<close>

text \<open>
  The script works on what \<^verbatim>\<open>r.json()\<close> returns: \<^verbatim>\<open>None\<close>, booleans, integers,
  floats, strings, lists and dictionaries. A Python \<^verbatim>\<open>str\<close> is modelled by its UTF-8
  encoding (a \<^typ>\<open>string\<close> is a list of bytes); a dictionary by an association list in
  insertion order whose keys are pairwise distinct, read with \<^const>\<open>map_of\<close>. Of a
  float only its being zero or not is ever inspected by the script (NaN and the
  infinities, which are not JSON, are left out).
\<close>

datatype json =
    JNull
  | JBool bool
  | JInt int
  | JFloat rat
  | JStr string
  | JList "json list"
  | JObj "(string \<times> json) list"

datatype smtp_stage = AtConnect | AtEhlo | AtLogin | AtSendmail | AtQuit

datatype py_error =
    TypeError
  | ValueError
  | OverflowError
  | ZoneInfoNotFoundError
  | RequestError string
  | ConfigurationError
  | SMTPError smtp_stage

text \<open>Truth value testing, as \<^verbatim>\<open>if x:\<close> and \<^verbatim>\<open>x or y\<close> do it.\<close>

fun truthy :: "json \<Rightarrow> bool" where
  "truthy JNull = False"
| "truthy (JBool b) = b"
| "truthy (JInt i) = (i \<noteq> 0)"
| "truthy (JFloat x) = (x \<noteq> 0)"
| "truthy (JStr s) = (s \<noteq> [])"
| "truthy (JList xs) = (xs \<noteq> [])"
| "truthy (JObj d) = (d \<noteq> [])"

definition py_or :: "json \<Rightarrow> json \<Rightarrow> json" where
  "py_or a b = (if truthy a then a else b)"

text \<open>\<^verbatim>\<open>d.get(k)\<close>: the value, or \<^verbatim>\<open>None\<close> when the key is missing.\<close>

definition dict_get :: "(string \<times> json) list \<Rightarrow> string \<Rightarrow> json" where
  "dict_get d k = (case map_of d k of None \<Rightarrow> JNull | Some v \<Rightarrow> v)"

fun is_str :: "json \<Rightarrow> bool" where
  "is_str (JStr s) = True"
| "is_str _ = False"

text \<open>\<^verbatim>\<open>str(i)\<close> of an integer: its decimal digits, with a sign.\<close>

fun digits :: "nat \<Rightarrow> string" where
  "digits n = (if n < 10 then [''0123456789'' ! n]
               else digits (n div 10) @ [''0123456789'' ! (n mod 10)])"

definition str_int :: "int \<Rightarrow> string" where
  "str_int i = (if i < 0 then ''-'' @ digits (nat (- i)) else digits (nat i))"

text \<open>
  What an f-string \<^verbatim>\<open>f"{v}"\<close> inserts for a value. The text of a float, a list or a
  dictionary is Python's \<^verbatim>\<open>repr\<close>, which is taken as the parameter \<open>repr\<close>.
\<close>

fun py_format :: "(json \<Rightarrow> string) \<Rightarrow> json \<Rightarrow> string" where
  "py_format repr (JStr s) = s"
| "py_format repr (JInt i) = str_int i"
| "py_format repr (JBool b) = (if b then ''True'' else ''False'')"
| "py_format repr JNull = ''None''"
| "py_format repr v = repr v"

text \<open>\<^verbatim>\<open>sep.join(xs)\<close> on strings.\<close>

fun str_join :: "string \<Rightarrow> string list \<Rightarrow> string" where
  "str_join sep [] = []"
| "str_join sep [s] = s"
| "str_join sep (s # t # ss) = s @ sep @ str_join sep (t # ss)"

text \<open>\<^verbatim>\<open>sep.join(xs)\<close> raises TypeError when an item is not a string.\<close>

fun strs_of :: "json list \<Rightarrow> string list option" where
  "strs_of [] = Some []"
| "strs_of (JStr s # xs) = map_option ((#) s) (strs_of xs)"
| "strs_of (_ # xs) = None"

definition py_join :: "string \<Rightarrow> json list \<Rightarrow> py_error + string" where
  "py_join sep xs = (case strs_of xs of None \<Rightarrow> Inl TypeError | Some ss \<Rightarrow> Inr (str_join sep ss))"

text \<open>
  Iterating a string yields its characters: in the UTF-8 encoding, each lead byte with
  the continuation bytes (\<open>0x80\<close> to \<open>0xBF\<close>) that follow it.
\<close>

definition is_cont :: "char \<Rightarrow> bool" where
  "is_cont c = (128 \<le> (of_char c :: nat) \<and> (of_char c :: nat) < 192)"

function py_chars :: "string \<Rightarrow> string list" where
  "py_chars [] = []"
| "py_chars (c # cs) = (c # takeWhile is_cont cs) # py_chars (dropWhile is_cont cs)"
  by pat_completeness auto
termination
  by (relation "measure length") (auto simp: length_dropWhile_le less_Suc_eq_le)

text \<open>
  \<^verbatim>\<open>for it in v\<close>: a list yields its items, a string its characters, a dictionary its
  keys; anything else is not iterable.
\<close>

fun py_iter :: "json \<Rightarrow> py_error + json list" where
  "py_iter (JList xs) = Inr xs"
| "py_iter (JStr s) = Inr (map JStr (py_chars s))"
| "py_iter (JObj d) = Inr (map (\<lambda>kv. JStr (fst kv)) d)"
| "py_iter _ = Inl TypeError"

section \<open>fetch_papers_for_date: normalising the payload\<close>

record paper =
  title :: json
  authors :: json
  abstract :: json
  url :: json

text \<open>Lines 22 to 27: which value the loop over entries runs on.\<close>

fun select_items :: "json \<Rightarrow> json" where
  "select_items (JObj d) =
     (if map_of d ''items'' \<noteq> None then py_or (dict_get d ''items'') (JList []) else JList [])"
| "select_items (JList xs) = JList xs"
| "select_items _ = JList []"

text \<open>Lines 30 and 31: the object the fields are read from.\<close>

fun entry_obj :: "json \<Rightarrow> (string \<times> json) list" where
  "entry_obj (JObj d) = (case dict_get d ''paper'' of JObj p \<Rightarrow> p | _ \<Rightarrow> d)"
| "entry_obj _ = []"

text \<open>Lines 35 to 42: the loop collecting author names.\<close>

definition author_name :: "(string \<times> json) list \<Rightarrow> json" where
  "author_name a =
     py_or (py_or (dict_get a ''name'') (dict_get a ''fullName'')) (dict_get a ''displayName'')"

fun author_names :: "json list \<Rightarrow> json list" where
  "author_names [] = []"
| "author_names (JObj a # as) =
     (let n = author_name a in if truthy n then n # author_names as else author_names as)"
| "author_names (JStr s # as) = JStr s # author_names as"
| "author_names (_ # as) = author_names as"

text \<open>Lines 33 to 47.\<close>

definition authors_str :: "json \<Rightarrow> py_error + string" where
  "authors_str raw =
     (case py_or raw (JList []) of
        JList xs \<Rightarrow> py_join '', '' (author_names xs)
      | JStr s \<Rightarrow> Inr s
      | _ \<Rightarrow> Inr [])"

definition papers_url :: string where
  "papers_url = ''https://huggingface.co/papers/''"

text \<open>Lines 49 to 53 and the \<^verbatim>\<open>url or ""\<close> of line 58.\<close>

definition paper_url :: "(json \<Rightarrow> string) \<Rightarrow> (string \<times> json) list \<Rightarrow> json" where
  "paper_url repr obj =
     (let url0 = py_or (py_or (dict_get obj ''url'') (dict_get obj ''paperUrl''))
                   (dict_get obj ''arxivUrl'');
          url1 = (if \<not> truthy url0
                  then (let pid = py_or (dict_get obj ''id'') (dict_get obj ''paperId'')
                        in if truthy pid then JStr (papers_url @ py_format repr pid) else url0)
                  else url0)
      in py_or url1 (JStr []))"

text \<open>Lines 32 to 59: one record, or the TypeError of the join.\<close>

definition make_paper :: "(json \<Rightarrow> string) \<Rightarrow> (string \<times> json) list \<Rightarrow> py_error + paper" where
  "make_paper repr obj =
     (let t = py_or (py_or (dict_get obj ''title'') (dict_get obj ''name'')) (JStr [])
      in case authors_str (dict_get obj ''authors'') of
           Inl e \<Rightarrow> Inl e
         | Inr a \<Rightarrow>
             (let b = py_or (py_or (py_or (dict_get obj ''abstract'') (dict_get obj ''summary''))
                               (dict_get obj ''description'')) (JStr [])
              in Inr \<lparr>title = t, authors = JStr a, abstract = b, url = paper_url repr obj\<rparr>))"

fun papers_loop :: "(json \<Rightarrow> string) \<Rightarrow> json list \<Rightarrow> py_error + paper list" where
  "papers_loop repr [] = Inr []"
| "papers_loop repr (it # its) =
     (case make_paper repr (entry_obj it) of
        Inl e \<Rightarrow> Inl e
      | Inr p \<Rightarrow> (case papers_loop repr its of Inl e \<Rightarrow> Inl e | Inr ps \<Rightarrow> Inr (p # ps)))"

text \<open>Lines 22 to 60: from the parsed payload to the records.\<close>

definition normalize :: "(json \<Rightarrow> string) \<Rightarrow> json \<Rightarrow> py_error + paper list" where
  "normalize repr data =
     (case py_iter (select_items data) of
        Inl e \<Rightarrow> Inl e
      | Inr items \<Rightarrow> papers_loop repr items)"

section \<open>fetch_papers_for_date: the request\<close>

definition HF_API_URL :: string where
  "HF_API_URL = ''https://huggingface.co/api/daily_papers''"

text \<open>
  Lines 17 to 21. The server is the parameter \<open>http\<close>: for a URL, the exception that
  \<^verbatim>\<open>requests.get\<close>, \<^verbatim>\<open>raise_for_status\<close> or \<^verbatim>\<open>r.json\<close> raises, or the parsed payload.
  The state is the list of the URLs requested so far.
\<close>

definition request_url :: "string \<Rightarrow> string" where
  "request_url date_s = HF_API_URL @ ''?date='' @ date_s"

definition fetch_papers_for_date ::
  "(json \<Rightarrow> string) \<Rightarrow> (string \<Rightarrow> py_error + json) \<Rightarrow> string \<Rightarrow> string list
     \<Rightarrow> (py_error + paper list) \<times> string list" where
  "fetch_papers_for_date repr http date_s reqs =
     (let u = request_url date_s
      in (case http u of Inl e \<Rightarrow> Inl e | Inr data \<Rightarrow> normalize repr data, reqs @ [u]))"

section \<open>get_daily_papers_with_fallback\<close>

text \<open>
  A \<^verbatim>\<open>date\<close> is its proleptic Gregorian ordinal (\<^verbatim>\<open>date.toordinal()\<close>), from 1 for
  0001-01-01 to 3652059 for 9999-12-31. Subtracting a \<^verbatim>\<open>timedelta\<close> raises OverflowError
  when the result leaves that range (which also covers the days a \<^verbatim>\<open>timedelta\<close> cannot
  hold).
\<close>

type_synonym date = int

definition date_minus :: "date \<Rightarrow> int \<Rightarrow> py_error + date" where
  "date_minus d i = (if 1 \<le> d - i \<and> d - i \<le> 3652059 then Inr (d - i) else Inl OverflowError)"

text \<open>Lines 14 and 15; \<^verbatim>\<open>strftime\<close> is the library's, a parameter.\<close>

definition date_str :: "(string \<Rightarrow> date \<Rightarrow> string) \<Rightarrow> date \<Rightarrow> string" where
  "date_str strftime dt = strftime ''%Y-%m-%d'' dt"

text \<open>
  Lines 65 to 70, the loop over \<^verbatim>\<open>range(0, max_days_back + 1)\<close>: \<open>Some\<close> is what the loop
  returns or raises, \<open>None\<close> is falling out of it.
\<close>

fun fallback_loop ::
  "(json \<Rightarrow> string) \<Rightarrow> (string \<Rightarrow> py_error + json) \<Rightarrow> (string \<Rightarrow> date \<Rightarrow> string) \<Rightarrow> date
     \<Rightarrow> int list \<Rightarrow> string list \<Rightarrow> (py_error + string \<times> paper list) option \<times> string list" where
  "fallback_loop repr http strftime today [] reqs = (None, reqs)"
| "fallback_loop repr http strftime today (i # is) reqs =
     (case date_minus today i of
        Inl e \<Rightarrow> (Some (Inl e), reqs)
      | Inr d \<Rightarrow>
          (let ds = date_str strftime d;
               (r, reqs') = fetch_papers_for_date repr http ds reqs
           in case r of
                Inl e \<Rightarrow> (Some (Inl e), reqs')
              | Inr papers \<Rightarrow>
                  if papers \<noteq> [] then (Some (Inr (ds, papers)), reqs')
                  else fallback_loop repr http strftime today is reqs'))"

text \<open>
  Lines 62 to 71. The clock is the parameter \<open>clock\<close>: for a time zone name, the
  exception of \<^verbatim>\<open>ZoneInfo\<close> or today's date there.
\<close>

definition get_daily_papers_with_fallback ::
  "(json \<Rightarrow> string) \<Rightarrow> (string \<Rightarrow> py_error + json) \<Rightarrow> (string \<Rightarrow> date \<Rightarrow> string)
     \<Rightarrow> (string \<Rightarrow> py_error + date) \<Rightarrow> string \<Rightarrow> int \<Rightarrow> string list
     \<Rightarrow> (py_error + string \<times> paper list) \<times> string list" where
  "get_daily_papers_with_fallback repr http strftime clock tz_name max_days_back reqs =
     (case clock tz_name of
        Inl e \<Rightarrow> (Inl e, reqs)
      | Inr today \<Rightarrow>
          (case fallback_loop repr http strftime today [0..max_days_back] reqs of
             (Some r, reqs') \<Rightarrow> (r, reqs')
           | (None, reqs') \<Rightarrow> (Inr (date_str strftime today, []), reqs')))"

text \<open>The candidate of step \<open>i\<close> of the walk: its date string, when the date exists.\<close>

definition candidate :: "(string \<Rightarrow> date \<Rightarrow> string) \<Rightarrow> date \<Rightarrow> int \<Rightarrow> py_error + string" where
  "candidate strftime today i =
     (case date_minus today i of Inl e \<Rightarrow> Inl e | Inr d \<Rightarrow> Inr (date_str strftime d))"

text \<open>What one fetch of a date string gives, whatever the requests before.\<close>

definition fetched ::
  "(json \<Rightarrow> string) \<Rightarrow> (string \<Rightarrow> py_error + json) \<Rightarrow> string \<Rightarrow> py_error + paper list" where
  "fetched repr http ds = fst (fetch_papers_for_date repr http ds [])"

text \<open>Step \<open>i\<close> of the walk has a date, and the fetch for it gives no papers.\<close>

definition empty_day ::
  "(json \<Rightarrow> string) \<Rightarrow> (string \<Rightarrow> py_error + json) \<Rightarrow> (string \<Rightarrow> date \<Rightarrow> string) \<Rightarrow> date
     \<Rightarrow> int \<Rightarrow> bool" where
  "empty_day repr http strftime today i =
     (case candidate strftime today i of Inl e \<Rightarrow> False | Inr ds \<Rightarrow> fetched repr http ds = Inr [])"

text \<open>The requests of the steps \<open>is\<close> of the walk, in order.\<close>

definition walk_urls :: "(string \<Rightarrow> date \<Rightarrow> string) \<Rightarrow> date \<Rightarrow> int list \<Rightarrow> string list" where
  "walk_urls strftime today is = map (\<lambda>i. request_url (date_str strftime (today - i))) is"

text \<open>
  An instance of \<^verbatim>\<open>strftime\<close> for the one format the script uses, with years of four
  digits, and a small world to run the walk in: it is 2024-01-04 everywhere, and the
  server has one paper, on 2024-01-01.
\<close>

definition pad :: "nat \<Rightarrow> int \<Rightarrow> string" where
  "pad w n = replicate (w - length (digits (nat n))) CHR ''0'' @ digits (nat n)"

definition ymd_of_ordinal :: "int \<Rightarrow> int \<times> int \<times> int" where
  "ymd_of_ordinal n =
     (let z = n + 305;
          era = z div 146097;
          doe = z - era * 146097;
          yoe = (doe - doe div 1460 + doe div 36524 - doe div 146096) div 365;
          doy = doe - (365 * yoe + yoe div 4 - yoe div 100);
          mp = (5 * doy + 2) div 153;
          d = doy - (153 * mp + 2) div 5 + 1;
          m = (if mp < 10 then mp + 3 else mp - 9);
          y = yoe + era * 400 + (if m \<le> 2 then 1 else 0)
      in (y, m, d))"

definition strftime_ymd :: "string \<Rightarrow> date \<Rightarrow> string" where
  "strftime_ymd f dt = (case ymd_of_ordinal dt of (y, m, d) \<Rightarrow> pad 4 y @ ''-'' @ pad 2 m @ ''-'' @ pad 2 d)"

definition demo_clock :: "string \<Rightarrow> py_error + date" where
  "demo_clock tz_name = Inr 738889"

definition demo_http :: "string \<Rightarrow> py_error + json" where
  "demo_http u =
     (if u = request_url ''2024-01-01'' then Inr (JList [JObj [(''title'', JStr ''T'')]])
      else Inr (JObj [(''items'', JList [])]))"

text \<open>The same world with nothing on the server, and with the server down on 2024-01-03.\<close>

definition empty_http :: "string \<Rightarrow> py_error + json" where
  "empty_http u = Inr (JList [])"

definition down_http :: "string \<Rightarrow> py_error + json" where
  "down_http u =
     (if u = request_url ''2024-01-03'' then Inl (RequestError ''ConnectTimeout'')
      else demo_http u)"

section \<open>build_email_html\<close>

text \<open>The texts of the script that are not ASCII, in UTF-8.\<close>

definition no_papers :: string where
  "no_papers = '' '' @ [CHR 0xE6, CHR 0x9A, CHR 0x82, CHR 0xE6, CHR 0x97, CHR 0xA0, CHR 0xE5, CHR 0x8F,
     CHR 0xAF, CHR 0xE7, CHR 0x94, CHR 0xA8, CHR 0xE7, CHR 0x9A, CHR 0x84] @ '' Daily Papers''
     @ [CHR 0xE3, CHR 0x80, CHR 0x82]"

definition footer_text :: string where
  "footer_text = [CHR 0xE5, CHR 0xA6, CHR 0x82, CHR 0xE9, CHR 0x9C, CHR 0x80, CHR 0xE8, CHR 0xB0,
     CHR 0x83, CHR 0xE6, CHR 0x95, CHR 0xB4, CHR 0xE6, CHR 0x8E, CHR 0xA8, CHR 0xE9, CHR 0x80, CHR 0x81,
     CHR 0xE6, CHR 0x97, CHR 0xB6, CHR 0xE9, CHR 0x97, CHR 0xB4, CHR 0xE6, CHR 0x88, CHR 0x96, CHR 0xE7,
     CHR 0xAD, CHR 0x9B, CHR 0xE9, CHR 0x80, CHR 0x89, CHR 0xE8, CHR 0xA7, CHR 0x84, CHR 0xE5, CHR 0x88,
     CHR 0x99, CHR 0xEF, CHR 0xBC, CHR 0x8C, CHR 0xE8, CHR 0xAF, CHR 0xB7, CHR 0xE8, CHR 0x81, CHR 0x94,
     CHR 0xE7, CHR 0xB3, CHR 0xBB, CHR 0xE7, CHR 0xBB, CHR 0xB4, CHR 0xE6, CHR 0x8A, CHR 0xA4, CHR 0xE8,
     CHR 0x80, CHR 0x85, CHR 0xE3, CHR 0x80, CHR 0x82]"

definition authors_label :: string where
  "authors_label = ''  '' @ [CHR 0xE4, CHR 0xBD, CHR 0x9C, CHR 0xE8, CHR 0x80, CHR 0x85] @ '': ''"

definition abstract_label :: string where
  "abstract_label = ''  '' @ [CHR 0xE6, CHR 0x91, CHR 0x98, CHR 0xE8, CHR 0xA6, CHR 0x81] @ '': ''"

definition link_label :: string where
  "link_label = ''  '' @ [CHR 0xE9, CHR 0x93, CHR 0xBE, CHR 0xE6, CHR 0x8E, CHR 0xA5] @ '': ''"

text \<open>Lines 74 to 88.\<close>

definition css :: string where
  \<open>css =
     ''body{font-family:-apple-system,BlinkMacSystemFont,Segoe UI,Roboto,Helvetica,Arial,sans-serif;margin:0;padding:0;background:#f6f8fa;color:#24292e;}''
   @ ''.container{max-width:820px;margin:0 auto;padding:24px;}''
   @ ''.header{display:flex;align-items:center;gap:12px;margin-bottom:16px;}''
   @ ''.badge{background:#2f81f7;color:#fff;font-weight:600;border-radius:999px;padding:4px 10px;font-size:12px;}''
   @ ''.title{margin:0;font-size:22px;line-height:1.3;}''
   @ ''.subtitle{margin:4px 0 0 0;color:#57606a;font-size:13px;}''
   @ ''.card{background:#fff;border:1px solid #d0d7de;border-radius:10px;padding:16px;margin:12px 0;box-shadow:0 1px 0 rgba(27,31,36,.04);}''
   @ ''.paper-title{margin:0 0 8px;font-size:16px;color:#0969da;text-decoration:none;}''
   @ ''.paper-title:hover{text-decoration:underline;}''
   @ ''.meta{color:#57606a;font-size:13px;margin-bottom:8px;}''
   @ ''.abstract{font-size:14px;line-height:1.55;color:#24292e;}''
   @ ''.footer{margin-top:24px;color:#57606a;font-size:12px;}''
   @ ''.empty{background:#fff; border:1px dashed #d0d7de; border-radius:10px; padding:20px; text-align:center; color:#57606a;}''\<close>

text \<open>Line 95: the title element of a card.\<close>

definition title_html :: "(json \<Rightarrow> string) \<Rightarrow> json \<Rightarrow> json \<Rightarrow> string" where
  \<open>title_html repr link t =
     (if truthy link
      then ''<a class="paper-title" href="'' @ py_format repr link @ ''" target="_blank">''
             @ py_format repr t @ ''</a>''
      else ''<div class="paper-title">'' @ py_format repr t @ ''</div>'')\<close>

text \<open>Lines 91 to 98: the card of one paper.\<close>

definition html_card :: "(json \<Rightarrow> string) \<Rightarrow> paper \<Rightarrow> string" where
  \<open>html_card repr p =
     (let link = py_or (url p) (JStr []);
          t = py_or (title p) (JStr []);
          a = py_or (authors p) (JStr []);
          b = py_or (abstract p) (JStr [])
      in ''<div class="card">'' @ title_html repr link t
           @ ''<div class="meta">'' @ py_format repr a @ ''</div>''
           @ ''<div class="abstract">'' @ py_format repr b @ ''</div></div>'')\<close>

text \<open>Lines 102 to 112: what stands before and after the body.\<close>

definition html_head :: "string \<Rightarrow> string" where
  \<open>html_head date_s =
     ''<html><head><meta charset="utf-8"><meta name="viewport" content="width=device-width,initial-scale=1">''
     @ ''<style>'' @ css @ ''</style></head>''
     @ ''<body>''
     @ ''<div class="container">''
     @ ''<div class="header"><span class="badge">Daily</span><h1 class="title">Hugging Face Daily Papers - ''
     @ date_s @ ''</h1></div>''
     @ ''<div class="content">''\<close>

definition html_tail :: string where
  \<open>html_tail =
     ''</div>''
     @ ''<div class="footer">'' @ footer_text @ ''</div>''
     @ ''</div>''
     @ ''</body></html>''\<close>

text \<open>Lines 73 to 113.\<close>

definition build_email_html :: "(json \<Rightarrow> string) \<Rightarrow> string \<Rightarrow> paper list \<Rightarrow> string" where
  \<open>build_email_html repr date_s papers =
     (let parts = map (html_card repr) papers;
          body = (if parts = [] then ''<div class="empty">'' @ date_s @ no_papers @ ''</div>''
                  else concat parts)
      in html_head date_s @ body @ html_tail)\<close>

section \<open>build_email_text\<close>

definition digest_heading :: string where
  "digest_heading = ''Hugging Face Daily Papers - ''"

text \<open>Lines 121 to 131: the lines of one paper.\<close>

definition text_lines :: "(json \<Rightarrow> string) \<Rightarrow> paper \<Rightarrow> string list" where
  "text_lines repr p =
     (let t = py_or (title p) (JStr []);
          a = py_or (authors p) (JStr []);
          b = py_or (abstract p) (JStr []);
          u = py_or (url p) (JStr [])
      in [''- '' @ py_format repr t]
         @ (if truthy a then [authors_label @ py_format repr a] else [])
         @ (if truthy b then [abstract_label @ py_format repr b] else [])
         @ (if truthy u then [link_label @ py_format repr u] else []))"

text \<open>Lines 115 to 132.\<close>

definition build_email_text :: "(json \<Rightarrow> string) \<Rightarrow> string \<Rightarrow> paper list \<Rightarrow> string" where
  "build_email_text repr date_s papers =
     str_join ''\<newline>''
       ((digest_heading @ date_s)
        # (if papers = [] then [date_s @ no_papers] else concat (map (text_lines repr) papers)))"

section \<open>send_email\<close>

text \<open>
  \<^verbatim>\<open>s.split(c)\<close> on a one-character separator. The separators of the script are
  ASCII, so splitting the UTF-8 encoding splits the string.
\<close>

fun py_split :: "char \<Rightarrow> string \<Rightarrow> string list" where
  "py_split sep [] = [[]]"
| "py_split sep (c # cs) =
     (if c = sep then [] # py_split sep cs
      else (case py_split sep cs of [] \<Rightarrow> [[c]] | l # ls \<Rightarrow> (c # l) # ls))"

text \<open>
  \<^verbatim>\<open>str.strip\<close> and \<^verbatim>\<open>int\<close> are the library's: which characters are white space and
  which are decimal digits is decided by its Unicode tables. They are the parameters
  \<open>py_strip\<close> and \<open>py_int\<close> of the definitions below. To run the definitions, two
  instances that agree with the library on ASCII text: \<^verbatim>\<open>strip\<close> removes the characters
  \<open>0x09\<close> to \<open>0x0D\<close>, \<open>0x1C\<close> to \<open>0x1F\<close> and the space from both ends; \<^verbatim>\<open>int\<close> skips
  \<open>0x09\<close> to \<open>0x0D\<close> and the space at both ends, then reads a sign and decimal
  digits, single underscores allowed between digits, at most 4300 digits; anything else
  is a ValueError.
\<close>

definition strip_space :: "char \<Rightarrow> bool" where
  "strip_space c = (c \<in> set [CHR 0x09, CHR 0x0A, CHR 0x0B, CHR 0x0C, CHR 0x0D,
                               CHR 0x1C, CHR 0x1D, CHR 0x1E, CHR 0x1F, CHR 0x20])"

definition ascii_strip :: "string \<Rightarrow> string" where
  "ascii_strip s = rev (dropWhile strip_space (rev (dropWhile strip_space s)))"

definition int_space :: "char \<Rightarrow> bool" where
  "int_space c = (c \<in> set [CHR 0x09, CHR 0x0A, CHR 0x0B, CHR 0x0C, CHR 0x0D, CHR 0x20])"

definition ascii_digit :: "char \<Rightarrow> bool" where
  "ascii_digit c = (c \<in> set ''0123456789'')"

fun int_literal :: "string \<Rightarrow> bool" where
  "int_literal [] = False"
| "int_literal [c] = ascii_digit c"
| "int_literal (c # d # r) =
     (ascii_digit c \<and> (if d = CHR ''_'' then int_literal r else int_literal (d # r)))"

definition digits_value :: "string \<Rightarrow> int" where
  "digits_value ds = foldl (\<lambda>a c. 10 * a + (of_char c - 48)) 0 ds"

definition ascii_int :: "string \<Rightarrow> py_error + int" where
  "ascii_int s =
     (let t = rev (dropWhile int_space (rev (dropWhile int_space s)));
          neg = (t \<noteq> [] \<and> hd t = CHR ''-'');
          body = (if t \<noteq> [] \<and> (hd t = CHR ''-'' \<or> hd t = CHR ''+'') then tl t else t);
          ds = filter (\<lambda>c. c \<noteq> CHR ''_'') body
      in if int_literal body \<and> length ds \<le> 4300
         then Inr (if neg then - digits_value ds else digits_value ds)
         else Inl ValueError)"

text \<open>\<^verbatim>\<open>os.getenv(k, default)\<close> on the environment, a map from names to values.\<close>

definition getenv :: "(string \<rightharpoonup> string) \<Rightarrow> string \<Rightarrow> string \<Rightarrow> string" where
  "getenv env k dflt = (case env k of None \<Rightarrow> dflt | Some v \<Rightarrow> v)"

record config =
  smtp_host :: string
  smtp_port :: int
  smtp_user :: string
  smtp_pass :: string
  mail_from :: string
  recipients :: "string list"

text \<open>Line 141.\<close>

definition parse_recipients :: "(string \<Rightarrow> string) \<Rightarrow> string \<Rightarrow> string list" where
  "parse_recipients py_strip mail_to_raw =
     map py_strip
       (filter (\<lambda>x. py_strip x \<noteq> [])
          (py_split CHR '','' (map (\<lambda>c. if c = CHR '';'' then CHR '','' else c) mail_to_raw)))"

text \<open>Lines 135 to 141: reading the settings; the \<^verbatim>\<open>int\<close> of line 136 may raise.\<close>

definition load_config :: "(string \<Rightarrow> py_error + int) \<Rightarrow> (string \<Rightarrow> string)
    \<Rightarrow> (string \<rightharpoonup> string) \<Rightarrow> py_error + config" where
  "load_config py_int py_strip env =
     (let host = getenv env ''SMTP_HOST'' [];
          port_s = getenv env ''SMTP_PORT'' ''0''
      in case (if port_s \<noteq> [] then py_int port_s else Inr 0) of
           Inl e \<Rightarrow> Inl e
         | Inr port \<Rightarrow>
             (let user = getenv env ''SMTP_USERNAME'' [];
                  pass = getenv env ''SMTP_PASSWORD'' [];
                  sender = (case env ''MAIL_FROM'' of
                              None \<Rightarrow> user
                            | Some v \<Rightarrow> if v \<noteq> [] then v else user);
                  rcpts = parse_recipients py_strip (getenv env ''MAIL_TO'' [])
              in Inr \<lparr>smtp_host = host, smtp_port = port, smtp_user = user, smtp_pass = pass,
                       mail_from = sender, recipients = rcpts\<rparr>))"

text \<open>
  Lines 144 to 151: the message, kept as its headers and its two parts in order (the
  MIME encoding of \<^verbatim>\<open>as_string\<close> is not modelled).
\<close>

record message =
  msg_subject :: string
  msg_from :: string
  msg_to :: string
  msg_parts :: "(string \<times> string) list"

definition make_message :: "config \<Rightarrow> string \<Rightarrow> string \<Rightarrow> string \<Rightarrow> message" where
  "make_message cfg subject html_body text_body =
     \<lparr>msg_subject = subject, msg_from = mail_from cfg,
      msg_to = str_join '', '' (recipients cfg),
      msg_parts = [(''plain'', text_body), (''html'', html_body)]\<rparr>"

text \<open>
  The mail server is the parameter \<open>ok\<close>: whether a call succeeds, given the calls made
  before it. The state is the list of the calls made; the first call of a session is the
  connection.
\<close>

datatype smtp_call =
    SMTP_SSL string int
  | SMTP string int
  | Ehlo
  | Starttls
  | Login string string
  | Sendmail string "string list" message
  | Quit

type_synonym server = "smtp_call list \<Rightarrow> smtp_call \<Rightarrow> bool"

text \<open>Calls in sequence, up to the first that fails.\<close>

fun run_calls :: "server \<Rightarrow> (smtp_call \<times> smtp_stage) list \<Rightarrow> smtp_call list
    \<Rightarrow> (py_error + unit) \<times> smtp_call list" where
  "run_calls ok [] tr = (Inr (), tr)"
| "run_calls ok ((c, st) # cs) tr =
     (if ok tr c then run_calls ok cs (tr @ [c]) else (Inl (SMTPError st), tr @ [c]))"

text \<open>Leaving the \<^verbatim>\<open>with\<close> block sends QUIT, whatever happened in the block.\<close>

definition leave_session :: "server \<Rightarrow> (py_error + unit) \<times> smtp_call list
    \<Rightarrow> (py_error + unit) \<times> smtp_call list" where
  "leave_session ok rt =
     (case rt of (r, tr) \<Rightarrow> (if ok tr Quit then r else Inl (SMTPError AtQuit), tr @ [Quit]))"

text \<open>Lines 160 to 165: EHLO, then STARTTLS and EHLO again with any failure ignored.\<close>

definition upgrade_session :: "server \<Rightarrow> smtp_call list \<Rightarrow> (py_error + unit) \<times> smtp_call list" where
  "upgrade_session ok tr =
     (if \<not> ok tr Ehlo then (Inl (SMTPError AtEhlo), tr @ [Ehlo])
      else if ok (tr @ [Ehlo]) Starttls then (Inr (), tr @ [Ehlo, Starttls, Ehlo])
      else (Inr (), tr @ [Ehlo, Starttls]))"

text \<open>Lines 152 to 167: the session, for settings that passed the check.\<close>

definition deliver :: "server \<Rightarrow> config \<Rightarrow> message \<Rightarrow> (py_error + unit) \<times> smtp_call list" where
  "deliver ok cfg msg =
     (let send = [(Login (smtp_user cfg) (smtp_pass cfg), AtLogin),
                  (Sendmail (mail_from cfg) (recipients cfg) msg, AtSendmail)]
      in if smtp_port cfg = 465
         then (let c = SMTP_SSL (smtp_host cfg) (smtp_port cfg)
               in if \<not> ok [] c then (Inl (SMTPError AtConnect), [c])
                  else leave_session ok (run_calls ok send [c]))
         else (let c = SMTP (smtp_host cfg) (smtp_port cfg)
               in if \<not> ok [] c then (Inl (SMTPError AtConnect), [c])
                  else leave_session ok
                         (case upgrade_session ok [c] of
                            (Inl e, tr) \<Rightarrow> (Inl e, tr)
                          | (Inr u, tr) \<Rightarrow> run_calls ok send tr)))"

text \<open>Lines 134 to 167.\<close>

definition send_email :: "(string \<Rightarrow> py_error + int) \<Rightarrow> (string \<Rightarrow> string) \<Rightarrow> server
    \<Rightarrow> (string \<rightharpoonup> string) \<Rightarrow> string \<Rightarrow> string \<Rightarrow> string
    \<Rightarrow> (py_error + unit) \<times> smtp_call list" where
  "send_email py_int py_strip ok env subject html_body text_body =
     (case load_config py_int py_strip env of
        Inl e \<Rightarrow> (Inl e, [])
      | Inr cfg \<Rightarrow>
          if smtp_host cfg = [] \<or> smtp_port cfg = 0 \<or> smtp_user cfg = [] \<or> smtp_pass cfg = []
             \<or> recipients cfg = []
          then (Inl ConfigurationError, [])
          else deliver ok cfg (make_message cfg subject html_body text_body))"

text \<open>A server that accepts every call, and three environments to run the function in.\<close>

definition accept_all :: server where
  "accept_all tr c = True"

definition full_env :: "string \<rightharpoonup> string" where
  "full_env = map_of [(''SMTP_HOST'', ''smtp.example.org''), (''SMTP_PORT'', ''587''),
     (''SMTP_USERNAME'', ''bot''), (''SMTP_PASSWORD'', ''secret''),
     (''MAIL_TO'', ''a@example.org; b@example.org'')]"

definition no_recipient_env :: "string \<rightharpoonup> string" where
  "no_recipient_env = map_of [(''SMTP_HOST'', ''smtp.example.org''), (''SMTP_PORT'', ''587''),
     (''SMTP_USERNAME'', ''bot''), (''SMTP_PASSWORD'', ''secret''), (''MAIL_TO'', '' ; , '')]"

definition bad_port_env :: "string \<rightharpoonup> string" where
  "bad_port_env = map_of [(''SMTP_PORT'', ''abc''), (''SMTP_USERNAME'', ''bot''),
     (''SMTP_PASSWORD'', ''secret'')]"

section \<open>Reading the plain text back\<close>

text \<open>
  The script has no reader for its plain text; this one is the reader the round trip of
  the specification (8) is stated with. It is given the date, drops the heading line,
  and reads a line by how it begins: a title, or one of the three labelled fields of the
  title above it.
\<close>

definition blank_paper :: paper where
  "blank_paper = \<lparr>title = JStr [], authors = JStr [], abstract = JStr [], url = JStr []\<rparr>"

fun parse_lines :: "string list \<Rightarrow> paper \<times> paper list" where
  "parse_lines [] = (blank_paper, [])"
| "parse_lines (l # ls) =
     (case parse_lines ls of
        (cur, ps) \<Rightarrow>
          if prefix ''- '' l then (blank_paper, cur\<lparr>title := JStr (drop 2 l)\<rparr> # ps)
          else if prefix authors_label l
            then (cur\<lparr>authors := JStr (drop (length authors_label) l)\<rparr>, ps)
          else if prefix abstract_label l
            then (cur\<lparr>abstract := JStr (drop (length abstract_label) l)\<rparr>, ps)
          else if prefix link_label l
            then (cur\<lparr>url := JStr (drop (length link_label) l)\<rparr>, ps)
          else (cur, ps))"

definition parse_email_text :: "string \<Rightarrow> string \<Rightarrow> paper list" where
  "parse_email_text date_s txt =
     (let rest = drop (length (digest_heading @ date_s) + 1) txt
      in if rest = date_s @ no_papers then []
         else snd (parse_lines (py_split CHR ''\<newline>'' rest)))"

text \<open>A record of the data model: four strings, here each on one line.\<close>

fun one_line :: "json \<Rightarrow> bool" where
  "one_line (JStr s) = (CHR ''\<newline>'' \<notin> set s)"
| "one_line _ = False"

definition one_line_record :: "paper \<Rightarrow> bool" where
  "one_line_record p =
     (one_line (title p) \<and> one_line (authors p) \<and> one_line (abstract p) \<and> one_line (url p))"

section \<open>The specification's words\<close>

text \<open>
  The accepted payload shapes of the specification (4.1): an object containing an
  items key whose value is a sequence, or a bare sequence.
\<close>

fun accepted_shape :: "json \<Rightarrow> bool" where
  "accepted_shape (JObj d) = (case map_of d ''items'' of Some (JList xs) \<Rightarrow> True | _ \<Rightarrow> False)"
| "accepted_shape (JList xs) = True"
| "accepted_shape _ = False"

text \<open>
  The authors rule as the specification words it (4.1): an object gives the first
  non-empty of name, fullName, displayName; a plain string gives itself; an element with
  no name is dropped; the names are joined with a comma and a space. A string is used
  verbatim, any other shape is the empty string.
\<close>

definition name_keys :: "string list" where
  "name_keys = [''name'', ''fullName'', ''displayName'']"

fun display_name_spec :: "json \<Rightarrow> string option" where
  "display_name_spec (JObj a) =
     (case filter (\<lambda>s. s \<noteq> [])
             (List.map_filter (\<lambda>k. case dict_get a k of JStr s \<Rightarrow> Some s | _ \<Rightarrow> None) name_keys) of
        [] \<Rightarrow> None
      | s # _ \<Rightarrow> Some s)"
| "display_name_spec (JStr s) = Some s"
| "display_name_spec _ = None"

fun authors_spec :: "json \<Rightarrow> string" where
  "authors_spec (JList xs) = str_join '', '' (List.map_filter display_name_spec xs)"
| "authors_spec (JStr s) = s"
| "authors_spec _ = []"


text \<open>
  A name object: of the values under the three name keys, in their order, the first that
  Python takes for true is a string (or there is none).
\<close>

fun name_object :: "json \<Rightarrow> bool" where
  "name_object (JObj a) =
     (case List.find truthy (map (dict_get a) name_keys) of None \<Rightarrow> True | Some v \<Rightarrow> is_str v)"
| "name_object _ = True"

fun name_objects :: "json \<Rightarrow> bool" where
  "name_objects (JList xs) = list_all name_object xs"
| "name_objects _ = True"




text \<open>A stand-in for Python's \<^verbatim>\<open>repr\<close>, to run the definitions on concrete inputs.\<close>

definition repr_stub :: "json \<Rightarrow> string" where
  "repr_stub v = ''<repr>''"

section \<open>Properties of the normaliser\<close>




text \<open>
  C1, as stated: a payload that is not an accepted shape (not an object whose items
  value is a sequence, and not a bare sequence) gives the empty sequence and no failure.
  The code tests that the items key is there, not what it holds: a number under it is
  iterated and raises TypeError.
\<close>

theorem normalize_items_number_counterexample:
  "\<not> accepted_shape (JObj [(''items'', JInt 5)])
   \<and> normalize repr_stub (JObj [(''items'', JInt 5)]) = Inl TypeError"
  by (simp add: normalize_def py_or_def dict_get_def)

text \<open>
  C1, amended: a payload that is not an accepted shape, and is not an object whose items
  value Python takes for true, gives the empty sequence and no failure. This covers a
  scalar, null, an object without the items key, and an object whose items value is
  null, false, zero or empty.
\<close>

theorem normalize_unrecognised_empty:
  assumes "\<not> accepted_shape data"
    and "\<forall>d. data = JObj d \<longrightarrow> \<not> truthy (dict_get d ''items'')"
  shows "normalize repr data = Inr []"
  using assms by (cases data) (auto simp: normalize_def py_or_def)

theorem normalize_unrecognised_empty_witness:
  "\<not> accepted_shape (JObj [(''total'', JInt 3), (''items'', JNull)])
   \<and> normalize repr_stub (JObj [(''total'', JInt 3), (''items'', JNull)]) = Inr []"
  using normalize_unrecognised_empty [of "JObj [(''total'', JInt 3), (''items'', JNull)]" repr_stub]
  by (simp add: dict_get_def)

subsection \<open>The fields of a record\<close>









subsection \<open>The authors string\<close>

lemma author_name_spec:
  assumes "name_object (JObj a)"
  shows "case display_name_spec (JObj a) of
           None \<Rightarrow> \<not> truthy (author_name a)
         | Some s \<Rightarrow> author_name a = JStr s"
  using assms
  by (cases "dict_get a ''name''"; cases "dict_get a ''fullName''";
      cases "dict_get a ''displayName''")
     (simp_all add: author_name_def py_or_def name_keys_def split: if_splits)

lemma author_name_not_str:
  assumes "\<not> name_object (JObj a)"
  shows "truthy (author_name a) \<and> \<not> is_str (author_name a)"
  using assms
  by (auto simp: author_name_def py_or_def name_keys_def split: if_splits)

lemma display_name_spec_nonempty: "display_name_spec (JObj a) = Some s \<Longrightarrow> s \<noteq> []"
  by (auto split: list.splits dest!: arg_cong [where f = set])

lemma author_names_spec:
  "list_all name_object xs \<Longrightarrow>
   strs_of (author_names xs) = Some (List.map_filter display_name_spec xs)"
proof (induction xs)
  case Nil
  then show ?case by simp
next
  case (Cons x xs)
  then have ih: "strs_of (author_names xs) = Some (List.map_filter display_name_spec xs)"
    and nx: "name_object x" by simp_all
  show ?case
  proof (cases x)
    case (JObj a)
    with nx have "case display_name_spec (JObj a) of
           None \<Rightarrow> \<not> truthy (author_name a)
         | Some s \<Rightarrow> author_name a = JStr s"
      using author_name_spec by blast
    then show ?thesis
      using JObj ih display_name_spec_nonempty [of a]
      by (cases "display_name_spec (JObj a)") (simp_all add: Let_def del: display_name_spec.simps)
  qed (simp_all add: ih)
qed

lemma strs_of_not_str: "\<not> is_str v \<Longrightarrow> strs_of (v # vs) = None"
  by (cases v) simp_all

lemma strs_of_Cons_None: "strs_of vs = None \<Longrightarrow> strs_of (v # vs) = None"
  by (cases v) simp_all

lemma author_names_TypeError:
  "\<not> list_all name_object xs \<Longrightarrow> strs_of (author_names xs) = None"
proof (induction xs)
  case Nil
  then show ?case by simp
next
  case (Cons x xs)
  show ?case
  proof (cases "name_object x")
    case True
    with Cons have ih: "strs_of (author_names xs) = None" by simp
    show ?thesis
      by (cases x) (simp_all add: ih Let_def strs_of_Cons_None del: name_object.simps)
  next
    case False
    then obtain a where x: "x = JObj a" by (cases x) simp_all
    from False x have "truthy (author_name a) \<and> \<not> is_str (author_name a)"
      using author_name_not_str by blast
    then show ?thesis
      by (simp add: x Let_def strs_of_not_str)
  qed
qed

lemma authors_str_spec: "name_objects raw \<Longrightarrow> authors_str raw = Inr (authors_spec raw)"
  by (cases raw) (simp_all add: authors_str_def py_or_def py_join_def author_names_spec)

lemma authors_str_TypeError: "\<not> name_objects raw \<Longrightarrow> authors_str raw = Inl TypeError"
  by (cases raw) (auto simp: authors_str_def py_or_def py_join_def author_names_TypeError)

lemma make_paper_authors:
  assumes "name_objects (dict_get obj ''authors'')"
  shows "\<exists>p. make_paper repr obj = Inr p \<and> authors p = JStr (authors_spec (dict_get obj ''authors''))"
  using assms by (simp add: make_paper_def authors_str_spec Let_def)

lemma papers_loop_authors:
  "list_all (\<lambda>it. name_objects (dict_get (entry_obj it) ''authors'')) items \<Longrightarrow>
   \<exists>ps. papers_loop repr items = Inr ps
       \<and> map authors ps = map (\<lambda>it. JStr (authors_spec (dict_get (entry_obj it) ''authors''))) items"
proof (induction items)
  case Nil
  then show ?case by simp
next
  case (Cons it items)
  then obtain ps where ps: "papers_loop repr items = Inr ps"
    "map authors ps = map (\<lambda>it. JStr (authors_spec (dict_get (entry_obj it) ''authors''))) items"
    by auto
  from Cons.prems obtain p where p: "make_paper repr (entry_obj it) = Inr p"
    "authors p = JStr (authors_spec (dict_get (entry_obj it) ''authors''))"
    using make_paper_authors [of "entry_obj it" repr] by auto
  show ?case
    using ps p by simp
qed

text \<open>When an object of some entry is not a name object, the join raises.\<close>

lemma papers_loop_TypeError:
  "\<not> list_all (\<lambda>it. name_objects (dict_get (entry_obj it) ''authors'')) items \<Longrightarrow>
   papers_loop repr items = Inl TypeError"
proof (induction items)
  case Nil
  then show ?case by simp
next
  case (Cons it items)
  show ?case
  proof (cases "name_objects (dict_get (entry_obj it) ''authors'')")
    case True
    then obtain p where "make_paper repr (entry_obj it) = Inr p"
      using make_paper_authors [of "entry_obj it" repr] by blast
    moreover from True Cons have "papers_loop repr items = Inl TypeError" by simp
    ultimately show ?thesis by simp
  next
    case False
    then show ?thesis
      by (simp add: make_paper_def authors_str_TypeError Let_def)
  qed
qed

lemma normalize_authors_TypeError:
  assumes "py_iter (select_items data) = Inr items"
    and "\<not> list_all (\<lambda>it. name_objects (dict_get (entry_obj it) ''authors'')) items"
  shows "normalize repr data = Inl TypeError"
  using papers_loop_TypeError [OF assms(2), of repr] assms(1) by (simp add: normalize_def)

text \<open>
  C6, as stated: for every entry whose raw authors value is a sequence of plain strings
  and objects, each element is mapped to a display name (an object: name, then
  fullName, then displayName) and the names are joined. The code takes the first of the
  three values that Python takes for true, whatever its type, and the join raises
  TypeError on a name that is not a string: with the number 5 under name and a string
  under fullName no record is produced, where the wording gives the fullName.
\<close>

theorem normalize_author_name_number_counterexample:
  "normalize repr_stub
     (JList [JObj [(''authors'', JList [JObj [(''name'', JInt 5), (''fullName'', JStr ''Bo'')]])]])
     = Inl TypeError
   \<and> authors_spec (JList [JObj [(''name'', JInt 5), (''fullName'', JStr ''Bo'')]]) = ''Bo''"
  by (simp add: normalize_def make_paper_def authors_str_def py_or_def dict_get_def py_join_def
      author_name_def name_keys_def)

text \<open>
  C6, amended: for every payload whose entries can be iterated and in which, for every
  object in the raw authors sequence of every entry, the first value under name,
  fullName, displayName that Python takes for true is a string (or there is none),
  normalize returns one record per entry, in order, and the authors field of each is:
  for a sequence, the join, with a comma and a space and in input order, of the display
  names (an object: the first non-empty of name, fullName, displayName; a plain string:
  itself; no name: dropped); for a string, that string verbatim; for any other shape,
  the empty string. The right side is the specification's wording, \<^const>\<open>authors_spec\<close>.
\<close>

theorem normalize_authors_spec:
  assumes "py_iter (select_items data) = Inr items"
    and "list_all (\<lambda>it. name_objects (dict_get (entry_obj it) ''authors'')) items"
  shows "\<exists>ps. normalize repr data = Inr ps
       \<and> map authors ps = map (\<lambda>it. JStr (authors_spec (dict_get (entry_obj it) ''authors''))) items"
  using papers_loop_authors [OF assms(2), of repr] assms(1) by (simp add: normalize_def)

theorem normalize_authors_spec_witness:
  "\<exists>ps. normalize repr_stub
          (JObj [(''items'', JList [JObj [(''paper'', JObj [(''authors'',
             JList [JStr ''Ann'', JObj [(''name'', JStr []), (''fullName'', JStr ''Bo''),
                                       (''displayName'', JInt 5)], JInt 3, JObj []])])],
                                    JObj [(''authors'', JStr ''Cy'')]])])
          = Inr ps
        \<and> map authors ps = [JStr ''Ann, Bo'', JStr ''Cy'']"
proof -
  let ?e1 = "JObj [(''paper'', JObj [(''authors'',
             JList [JStr ''Ann'', JObj [(''name'', JStr []), (''fullName'', JStr ''Bo''),
                                       (''displayName'', JInt 5)], JInt 3, JObj []])])]"
  let ?e2 = "JObj [(''authors'', JStr ''Cy'')]"
  let ?d = "JObj [(''items'', JList [?e1, ?e2])]"
  have i: "py_iter (select_items ?d) = Inr [?e1, ?e2]"
    by (simp add: py_or_def dict_get_def)
  have n: "list_all (\<lambda>it. name_objects (dict_get (entry_obj it) ''authors'')) [?e1, ?e2]"
    by (simp add: dict_get_def name_keys_def)
  have a: "map (\<lambda>it. JStr (authors_spec (dict_get (entry_obj it) ''authors''))) [?e1, ?e2]
         = [JStr ''Ann, Bo'', JStr ''Cy'']"
    by (simp add: dict_get_def name_keys_def)
  from normalize_authors_spec [OF i n, of repr_stub] show ?thesis
    unfolding a .
qed

section \<open>Properties of the fallback walk\<close>

lemma fetch_papers_for_date_eq:
  "fetch_papers_for_date repr http ds reqs = (fetched repr http ds, reqs @ [request_url ds])"
  by (simp add: fetch_papers_for_date_def fetched_def Let_def)

lemma candidate_Inr:
  "candidate strftime today i = Inr ds \<Longrightarrow>
   date_minus today i = Inr (today - i) \<and> ds = date_str strftime (today - i)"
  by (auto simp: candidate_def date_minus_def split: if_splits)

text \<open>Steps that find nothing only add their requests.\<close>

lemma fallback_loop_empty_days:
  assumes "\<forall>j \<in> set js. empty_day repr http strftime today j"
  shows "fallback_loop repr http strftime today (js @ ks) reqs
       = fallback_loop repr http strftime today ks (reqs @ walk_urls strftime today js)"
  using assms
proof (induction js arbitrary: reqs)
  case Nil
  then show ?case by (simp add: walk_urls_def)
next
  case (Cons j js)
  from Cons.prems obtain ds where c: "candidate strftime today j = Inr ds"
    and f: "fetched repr http ds = Inr []"
    by (auto simp: empty_day_def split: sum.splits)
  from candidate_Inr [OF c] have d: "date_minus today j = Inr (today - j)"
    and ds: "ds = date_str strftime (today - j)" by simp_all
  have "fallback_loop repr http strftime today ((j # js) @ ks) reqs
      = fallback_loop repr http strftime today (js @ ks) (reqs @ [request_url ds])"
    using d f ds by (simp add: fetch_papers_for_date_eq)
  also have "\<dots> = fallback_loop repr http strftime today ks
                     ((reqs @ [request_url ds]) @ walk_urls strftime today js)"
    using Cons.prems by (intro Cons.IH) simp
  finally show ?case by (simp add: walk_urls_def ds)
qed

text \<open>The walk up to step \<open>k\<close>, when the steps before it find nothing.\<close>

lemma fallback_loop_reaches:
  assumes "0 \<le> k" and "k \<le> max_days_back"
    and "\<forall>j \<in> {0..<k}. empty_day repr http strftime today j"
  shows "fallback_loop repr http strftime today [0..max_days_back] reqs
       = fallback_loop repr http strftime today (k # [k + 1..max_days_back])
           (reqs @ walk_urls strftime today [0..k - 1])"
proof -
  have "\<forall>j \<in> set [0..k - 1]. empty_day repr http strftime today j"
    using assms(3) by auto
  then show ?thesis
    using fallback_loop_empty_days [of "[0..k - 1]"] upto_split3 [OF assms(1,2)] by simp
qed

lemma walk_urls_snoc:
  "0 \<le> k \<Longrightarrow> walk_urls strftime today [0..k - 1] @ [request_url (date_str strftime (today - k))]
     = walk_urls strftime today [0..k]"
  using upto_rec2 [of 0 k] by (simp add: walk_urls_def)

lemma fallback_all_empty:
  assumes "clock tz_name = Inr today"
    and "\<forall>j \<in> {0..max_days_back}. empty_day repr http strftime today j"
  shows "get_daily_papers_with_fallback repr http strftime clock tz_name max_days_back reqs
           = (Inr (date_str strftime today, []), reqs @ walk_urls strftime today [0..max_days_back])"
proof -
  have e: "\<forall>j \<in> set [0..max_days_back]. empty_day repr http strftime today j"
    using assms(2) by auto
  have "fallback_loop repr http strftime today [0..max_days_back] reqs
      = (None, reqs @ walk_urls strftime today [0..max_days_back])"
    using fallback_loop_empty_days [OF e, of "[]" reqs] by simp
  then show ?thesis
    using assms(1) by (simp add: get_daily_papers_with_fallback_def)
qed

subsection \<open>The small world, evaluated\<close>

lemma demo_ymd:
  "ymd_of_ordinal 738889 = (2024, 1, 4)" "ymd_of_ordinal 738888 = (2024, 1, 3)"
  "ymd_of_ordinal 738887 = (2024, 1, 2)" "ymd_of_ordinal 738886 = (2024, 1, 1)"
  unfolding ymd_of_ordinal_def Let_def by simp_all

lemma demo_pad:
  "pad 4 2024 = ''2024''" "pad 2 1 = ''01''" "pad 2 2 = ''02''" "pad 2 3 = ''03''"
  "pad 2 4 = ''04''"
  by (simp_all add: pad_def)

lemma demo_days:
  "strftime_ymd f 738889 = ''2024-01-04''" "strftime_ymd f 738888 = ''2024-01-03''"
  "strftime_ymd f 738887 = ''2024-01-02''" "strftime_ymd f 738886 = ''2024-01-01''"
  by (simp_all add: strftime_ymd_def demo_ymd demo_pad)

lemma demo_candidates:
  "candidate strftime_ymd 738889 0 = Inr ''2024-01-04''"
  "candidate strftime_ymd 738889 1 = Inr ''2024-01-03''"
  "candidate strftime_ymd 738889 2 = Inr ''2024-01-02''"
  "candidate strftime_ymd 738889 3 = Inr ''2024-01-01''"
  by (simp_all add: candidate_def date_minus_def date_str_def demo_days)

lemma demo_fetched:
  "fetched repr_stub demo_http ''2024-01-04'' = Inr []"
  "fetched repr_stub demo_http ''2024-01-03'' = Inr []"
  "fetched repr_stub demo_http ''2024-01-02'' = Inr []"
  "fetched repr_stub demo_http ''2024-01-01''
     = Inr [\<lparr>title = JStr ''T'', authors = JStr [], abstract = JStr [], url = JStr []\<rparr>]"
  by (simp_all add: fetched_def fetch_papers_for_date_def demo_http_def request_url_def
      normalize_def py_or_def dict_get_def make_paper_def authors_str_def py_join_def paper_url_def)

lemma empty_fetched: "fetched repr_stub empty_http ds = Inr []"
  by (simp add: fetched_def fetch_papers_for_date_def empty_http_def normalize_def)

lemma demo_upto: "[0..1::int] = [0, 1]" "[0..2::int] = [0, 1, 2]" "[0..3::int] = [0, 1, 2, 3]"
  by (simp_all add: upto_rec1 [of 0] upto_rec1 [of 1])

lemma demo_walk_urls:
  "walk_urls strftime_ymd 738889 [0..1] = map request_url [''2024-01-04'', ''2024-01-03'']"
  "walk_urls strftime_ymd 738889 [0..2]
     = map request_url [''2024-01-04'', ''2024-01-03'', ''2024-01-02'']"
  "walk_urls strftime_ymd 738889 [0..3]
     = map request_url [''2024-01-04'', ''2024-01-03'', ''2024-01-02'', ''2024-01-01'']"
  by (simp_all add: demo_upto walk_urls_def date_str_def demo_days)

subsection \<open>What the walk returns\<close>

text \<open>
  C3: the walk tries today, the day before, and so on in order, and returns at once with
  the first candidate date whose list of papers is not empty, paired with that list;
  the requests made are exactly those for the steps 0 to \<open>k\<close>, that is \<open>k + 1\<close> of
  them (four when only the third day back has papers).
\<close>

theorem fallback_first_nonempty:
  assumes "clock tz_name = Inr today" and "0 \<le> k" and "k \<le> max_days_back"
    and "\<forall>j \<in> {0..<k}. empty_day repr http strftime today j"
    and "candidate strftime today k = Inr ds"
    and "fetched repr http ds = Inr ps" and "ps \<noteq> []"
  shows "get_daily_papers_with_fallback repr http strftime clock tz_name max_days_back reqs
           = (Inr (ds, ps), reqs @ walk_urls strftime today [0..k])
       \<and> length (walk_urls strftime today [0..k]) = nat k + 1"
proof -
  from candidate_Inr [OF assms(5)] have d: "date_minus today k = Inr (today - k)"
    and ds: "ds = date_str strftime (today - k)" by simp_all
  have "fallback_loop repr http strftime today [0..max_days_back] reqs
      = fallback_loop repr http strftime today (k # [k + 1..max_days_back])
          (reqs @ walk_urls strftime today [0..k - 1])"
    by (rule fallback_loop_reaches [OF assms(2,3,4)])
  also have "\<dots> = (Some (Inr (ds, ps)),
                   reqs @ walk_urls strftime today [0..k - 1] @ [request_url ds])"
    using d assms(6,7) ds by (simp add: fetch_papers_for_date_eq Let_def)
  finally show ?thesis
    using assms(1,2) walk_urls_snoc [OF assms(2), of strftime today]
    by (simp add: get_daily_papers_with_fallback_def ds walk_urls_def nat_add_distrib)
qed

theorem fallback_first_nonempty_witness:
  "get_daily_papers_with_fallback repr_stub demo_http strftime_ymd demo_clock ''Asia/Shanghai'' 3 []
     = (Inr (''2024-01-01'',
             [\<lparr>title = JStr ''T'', authors = JStr [], abstract = JStr [], url = JStr []\<rparr>]),
        map request_url [''2024-01-04'', ''2024-01-03'', ''2024-01-02'', ''2024-01-01''])
   \<and> length (walk_urls strftime_ymd 738889 [0..3]) = 4"
proof -
  have e: "\<forall>j \<in> {0..<3}. empty_day repr_stub demo_http strftime_ymd 738889 j"
  proof -
    have "{0..<3::int} = {0, 1, 2}" by auto
    then show ?thesis by (simp add: empty_day_def demo_candidates demo_fetched)
  qed
  from fallback_first_nonempty [where clock = demo_clock and tz_name = "''Asia/Shanghai''"
      and today = 738889 and k = 3 and max_days_back = 3 and reqs = "[]",
      OF _ _ _ e demo_candidates(4) demo_fetched(4)]
  show ?thesis
    by (simp add: demo_clock_def demo_walk_urls)
qed

text \<open>
  C4: when every candidate date of the range gives an empty list, the walk returns
  today's date string paired with the empty list (not the date it tried last).
\<close>

theorem fallback_all_empty_today:
  assumes "clock tz_name = Inr today"
    and "\<forall>j \<in> {0..max_days_back}. empty_day repr http strftime today j"
  shows "fst (get_daily_papers_with_fallback repr http strftime clock tz_name max_days_back reqs)
           = Inr (date_str strftime today, [])"
  using fallback_all_empty [where clock = clock and tz_name = tz_name, OF assms] by simp

theorem fallback_all_empty_today_witness:
  "fst (get_daily_papers_with_fallback repr_stub demo_http strftime_ymd demo_clock ''UTC'' 2 [])
     = Inr (''2024-01-04'', [])"
proof -
  have e: "\<forall>j \<in> {0..2}. empty_day repr_stub demo_http strftime_ymd 738889 j"
  proof -
    have "{0..2::int} = {0, 1, 2}" by auto
    then show ?thesis by (simp add: empty_day_def demo_candidates demo_fetched)
  qed
  from fallback_all_empty_today [where clock = demo_clock and tz_name = "''UTC''"
      and today = 738889 and max_days_back = 2 and reqs = "[]", OF _ e]
  show ?thesis
    by (simp add: demo_clock_def date_str_def demo_days)
qed

text \<open>
  C5: a transport failure on the request of a candidate date is not swallowed: the walk
  stops there with that failure, makes no further request, and does not return a
  result with an empty list.
\<close>

theorem fallback_transport_error:
  assumes "clock tz_name = Inr today" and "0 \<le> k" and "k \<le> max_days_back"
    and "\<forall>j \<in> {0..<k}. empty_day repr http strftime today j"
    and "candidate strftime today k = Inr ds"
    and "http (request_url ds) = Inl e"
  shows "get_daily_papers_with_fallback repr http strftime clock tz_name max_days_back reqs
           = (Inl e, reqs @ walk_urls strftime today [0..k])"
proof -
  from candidate_Inr [OF assms(5)] have d: "date_minus today k = Inr (today - k)"
    and ds: "ds = date_str strftime (today - k)" by simp_all
  have f: "fetched repr http ds = Inl e"
    using assms(6) by (simp add: fetched_def fetch_papers_for_date_def)
  have "fallback_loop repr http strftime today [0..max_days_back] reqs
      = fallback_loop repr http strftime today (k # [k + 1..max_days_back])
          (reqs @ walk_urls strftime today [0..k - 1])"
    by (rule fallback_loop_reaches [OF assms(2,3,4)])
  also have "\<dots> = (Some (Inl e), reqs @ walk_urls strftime today [0..k - 1] @ [request_url ds])"
    using d f ds by (simp add: fetch_papers_for_date_eq)
  finally show ?thesis
    using assms(1) walk_urls_snoc [OF assms(2), of strftime today]
    by (simp add: get_daily_papers_with_fallback_def ds)
qed

theorem fallback_transport_error_witness:
  "get_daily_papers_with_fallback repr_stub down_http strftime_ymd demo_clock ''UTC'' 3 []
     = (Inl (RequestError ''ConnectTimeout''), map request_url [''2024-01-04'', ''2024-01-03''])"
proof -
  have "fetched repr_stub down_http ''2024-01-04'' = Inr []"
    by (simp add: fetched_def fetch_papers_for_date_def down_http_def demo_http_def
        request_url_def normalize_def py_or_def dict_get_def)
  moreover have "{0..<1::int} = {0}" by auto
  ultimately have e: "\<forall>j \<in> {0..<1}. empty_day repr_stub down_http strftime_ymd 738889 j"
    by (simp add: empty_day_def demo_candidates)
  have h: "down_http (request_url ''2024-01-03'') = Inl (RequestError ''ConnectTimeout'')"
    by (simp add: down_http_def)
  from fallback_transport_error [where clock = demo_clock and tz_name = "''UTC''"
      and today = 738889 and k = 1 and max_days_back = 3 and reqs = "[]",
      OF _ _ _ e demo_candidates(2) h]
  show ?thesis
    by (simp add: demo_clock_def demo_walk_urls)
qed

text \<open>
  C10: when every candidate date gives an empty list, the walk makes exactly
  \<open>max_days_back + 1\<close> requests if \<open>max_days_back\<close> is not negative; if it is negative
  the walk makes no request; either way it returns today's date string paired with
  the empty list.
\<close>

theorem fallback_fetch_count:
  assumes "clock tz_name = Inr today"
    and "\<forall>j \<in> {0..max_days_back}. empty_day repr http strftime today j"
  shows "\<exists>new. get_daily_papers_with_fallback repr http strftime clock tz_name max_days_back reqs
                 = (Inr (date_str strftime today, []), reqs @ new)
              \<and> (0 \<le> max_days_back \<longrightarrow> int (length new) = max_days_back + 1)
              \<and> (max_days_back < 0 \<longrightarrow> new = [])"
  using fallback_all_empty [where clock = clock and tz_name = tz_name, OF assms]
  by (auto simp: walk_urls_def)

theorem fallback_fetch_count_witness:
  "\<exists>new. get_daily_papers_with_fallback repr_stub empty_http strftime_ymd demo_clock ''UTC'' 3 []
            = (Inr (''2024-01-04'', []), new)
         \<and> length new = 4"
proof -
  have e: "\<forall>j \<in> {0..3}. empty_day repr_stub empty_http strftime_ymd 738889 j"
  proof -
    have "{0..3::int} = {0, 1, 2, 3}" by auto
    then show ?thesis by (simp add: empty_day_def demo_candidates empty_fetched)
  qed
  from fallback_fetch_count [where clock = demo_clock and tz_name = "''UTC''"
      and today = 738889 and max_days_back = 3 and reqs = "[]", OF _ e]
  show ?thesis
    by (simp add: demo_clock_def date_str_def demo_days)
qed

section \<open>Properties of the plain text\<close>

lemma py_split_no_sep: "sep \<notin> set l \<Longrightarrow> py_split sep l = [l]"
  by (induction l) auto

lemma py_split_append:
  "sep \<notin> set l \<Longrightarrow> py_split sep (l @ sep # rest) = l # py_split sep rest"
  by (induction l) auto

lemma str_join_Cons: "ys \<noteq> [] \<Longrightarrow> str_join sep (x # ys) = x @ sep @ str_join sep ys"
  by (cases ys) simp_all

lemma py_split_join:
  "ls \<noteq> [] \<Longrightarrow> \<forall>l \<in> set ls. c \<notin> set l \<Longrightarrow> py_split c (str_join [c] ls) = ls"
proof (induction ls)
  case Nil
  then show ?case by simp
next
  case (Cons l ls)
  show ?case
  proof (cases "ls = []")
    case True
    with Cons.prems show ?thesis by (simp add: py_split_no_sep)
  next
    case False
    with Cons show ?thesis by (simp add: str_join_Cons py_split_append)
  qed
qed

lemma label_clash:
  "\<not> prefix ''- '' (authors_label @ x)" "\<not> prefix ''- '' (abstract_label @ x)"
  "\<not> prefix ''- '' (link_label @ x)" "\<not> prefix authors_label (abstract_label @ x)"
  "\<not> prefix authors_label (link_label @ x)" "\<not> prefix abstract_label (link_label @ x)"
  by (simp_all add: authors_label_def abstract_label_def link_label_def)

lemma label_one_line:
  "CHR ''\<newline>'' \<notin> set authors_label" "CHR ''\<newline>'' \<notin> set abstract_label"
  "CHR ''\<newline>'' \<notin> set link_label"
  by (simp_all add: authors_label_def abstract_label_def link_label_def)

lemma parse_title_line:
  "parse_lines ((CHR ''-'' # CHR '' '' # t) # ls)
     = (blank_paper, (fst (parse_lines ls))\<lparr>title := JStr t\<rparr> # snd (parse_lines ls))"
  by (simp add: case_prod_beta)

lemma parse_authors_line:
  "parse_lines ((authors_label @ a) # ls)
     = ((fst (parse_lines ls))\<lparr>authors := JStr a\<rparr>, snd (parse_lines ls))"
  by (simp add: case_prod_beta label_clash)

lemma parse_abstract_line:
  "parse_lines ((abstract_label @ b) # ls)
     = ((fst (parse_lines ls))\<lparr>abstract := JStr b\<rparr>, snd (parse_lines ls))"
  by (simp add: case_prod_beta label_clash)

lemma parse_link_line:
  "parse_lines ((link_label @ u) # ls)
     = ((fst (parse_lines ls))\<lparr>url := JStr u\<rparr>, snd (parse_lines ls))"
  by (simp add: case_prod_beta label_clash)

lemma text_lines_strs:
  "text_lines repr \<lparr>title = JStr t, authors = JStr a, abstract = JStr b, url = JStr u\<rparr>
     = (''- '' @ t) # (if a \<noteq> [] then [authors_label @ a] else [])
       @ (if b \<noteq> [] then [abstract_label @ b] else [])
       @ (if u \<noteq> [] then [link_label @ u] else [])"
  by (simp add: text_lines_def py_or_def)

lemma one_line_recordE:
  assumes "one_line_record p"
  obtains t a b u where "p = \<lparr>title = JStr t, authors = JStr a, abstract = JStr b, url = JStr u\<rparr>"
    and "CHR ''\<newline>'' \<notin> set t" and "CHR ''\<newline>'' \<notin> set a"
    and "CHR ''\<newline>'' \<notin> set b" and "CHR ''\<newline>'' \<notin> set u"
proof -
  from assms obtain t a b u where "title p = JStr t" "authors p = JStr a" "abstract p = JStr b"
    "url p = JStr u" "CHR ''\<newline>'' \<notin> set t" "CHR ''\<newline>'' \<notin> set a"
    "CHR ''\<newline>'' \<notin> set b" "CHR ''\<newline>'' \<notin> set u"
    unfolding one_line_record_def
    by (cases "title p"; cases "authors p"; cases "abstract p"; cases "url p") simp_all
  then show ?thesis
    using that [of t a b u] by (cases p) simp
qed

lemma parse_text_lines:
  assumes "one_line_record p" and "fst (parse_lines ls) = blank_paper"
  shows "parse_lines (text_lines repr p @ ls) = (blank_paper, p # snd (parse_lines ls))"
proof -
  from assms(1) obtain t a b u
    where p: "p = \<lparr>title = JStr t, authors = JStr a, abstract = JStr b, url = JStr u\<rparr>"
    by (rule one_line_recordE)
  show ?thesis
    unfolding p text_lines_strs using assms(2)
    by (simp add: parse_title_line parse_authors_line parse_abstract_line parse_link_line
        blank_paper_def del: parse_lines.simps)
qed

lemma parse_all_lines:
  "list_all one_line_record ps \<Longrightarrow>
   parse_lines (concat (map (text_lines repr) ps)) = (blank_paper, ps)"
proof (induction ps)
  case Nil
  then show ?case by simp
next
  case (Cons p ps)
  then have "parse_lines (concat (map (text_lines repr) ps)) = (blank_paper, ps)"
    and "one_line_record p" by simp_all
  then show ?case
    using parse_text_lines [of p "concat (map (text_lines repr) ps)" repr] by simp
qed

lemma text_lines_one_line:
  assumes "one_line_record p" and "l \<in> set (text_lines repr p)"
  shows "CHR ''\<newline>'' \<notin> set l"
proof -
  from assms(1) obtain t a b u
    where p: "p = \<lparr>title = JStr t, authors = JStr a, abstract = JStr b, url = JStr u\<rparr>"
      and "CHR ''\<newline>'' \<notin> set t" "CHR ''\<newline>'' \<notin> set a"
      "CHR ''\<newline>'' \<notin> set b" "CHR ''\<newline>'' \<notin> set u"
    by (rule one_line_recordE)
  then show ?thesis
    using assms(2) unfolding p text_lines_strs
    by (auto simp: label_one_line split: if_splits)
qed

lemma text_lines_first: "\<exists>t ls. text_lines repr p = (''- '' @ t) # ls"
  by (simp add: text_lines_def Let_def)

lemma body_starts_with_hyphen:
  assumes "ps \<noteq> []"
  shows "\<exists>r. str_join sep (concat (map (text_lines repr) ps)) = CHR ''-'' # r"
proof -
  from assms obtain p qs where ps: "ps = p # qs" by (cases ps) auto
  obtain t ls where "text_lines repr p = (''- '' @ t) # ls"
    using text_lines_first by blast
  then have "concat (map (text_lines repr) ps) = (''- '' @ t) # (ls @ concat (map (text_lines repr) qs))"
    by (simp add: ps)
  then show ?thesis
    by (cases "ls @ concat (map (text_lines repr) qs)") simp_all
qed

lemma placeholder_no_hyphen: "\<not> prefix ''-'' d \<Longrightarrow> d @ no_papers \<noteq> CHR ''-'' # r"
  by (cases d) (simp_all add: no_papers_def)

lemma build_email_text_rest:
  "drop (length (digest_heading @ d) + 1) (build_email_text repr d ps)
     = str_join ''\<newline>'' (if ps = [] then [d @ no_papers] else concat (map (text_lines repr) ps))"
proof -
  have ne: "(if ps = [] then [d @ no_papers] else concat (map (text_lines repr) ps)) \<noteq> []"
    using text_lines_first [of repr] by (cases ps) (auto, metis list.distinct(1))
  show ?thesis
    unfolding build_email_text_def str_join_Cons [OF ne]
    by simp
qed

text \<open>Reading back what was written, for records of one-line strings.\<close>

lemma parse_build_email_text:
  assumes "\<not> prefix ''-'' d" and "list_all one_line_record ps"
  shows "parse_email_text d (build_email_text repr d ps) = ps"
proof (cases "ps = []")
  case True
  have rest: "drop (length (digest_heading @ d) + 1) (build_email_text repr d ps) = d @ no_papers"
    unfolding build_email_text_rest using True by simp
  show ?thesis
    unfolding parse_email_text_def rest Let_def using True by simp
next
  case False
  let ?ls = "concat (map (text_lines repr) ps)"
  have rest: "drop (length (digest_heading @ d) + 1) (build_email_text repr d ps)
       = str_join ''\<newline>'' ?ls"
    unfolding build_email_text_rest using False by simp
  have ne: "?ls \<noteq> []"
    using False text_lines_first [of repr] by (cases ps) (auto, metis list.distinct(1))
  have ol: "\<forall>l \<in> set ?ls. CHR ''\<newline>'' \<notin> set l"
    using assms(2) text_lines_one_line by (auto simp: list_all_iff)
  have "str_join ''\<newline>'' ?ls \<noteq> d @ no_papers"
    using body_starts_with_hyphen [OF False, of "''\<newline>''" repr] placeholder_no_hyphen [OF assms(1)]
    by metis
  moreover have "py_split CHR ''\<newline>'' (str_join ''\<newline>'' ?ls) = ?ls"
    using py_split_join [OF ne ol] by simp
  ultimately show ?thesis
    unfolding parse_email_text_def rest Let_def
    by (simp add: parse_all_lines [OF assms(2)])
qed

text \<open>
  C7, as stated: for every date and every list of papers, reading the plain text back
  recovers the four fields of every paper in order, so that the plain text determines
  the list. The fields are inserted as they are: a title holding a line break followed
  by a hyphen and a space gives the very text of two papers.
\<close>

theorem text_line_break_counterexample:
  "build_email_text repr_stub ''2024-01-01''
       [\<lparr>title = JStr ''a\<newline>- b'', authors = JStr [], abstract = JStr [], url = JStr []\<rparr>]
     = build_email_text repr_stub ''2024-01-01''
         [\<lparr>title = JStr ''a'', authors = JStr [], abstract = JStr [], url = JStr []\<rparr>,
          \<lparr>title = JStr ''b'', authors = JStr [], abstract = JStr [], url = JStr []\<rparr>]
   \<and> [\<lparr>title = JStr ''a\<newline>- b'', authors = JStr [], abstract = JStr [], url = JStr []\<rparr>]
     \<noteq> [\<lparr>title = JStr ''a'', authors = JStr [], abstract = JStr [], url = JStr []\<rparr>,
         \<lparr>title = JStr ''b'', authors = JStr [], abstract = JStr [], url = JStr []\<rparr>]"
  by (simp add: build_email_text_def text_lines_def py_or_def)

text \<open>
  C7, amended: for every date string that does not begin with a hyphen (so for every
  date in the form YYYY-MM-DD) and every list of papers whose four fields are strings
  without a line break, reading the plain text back recovers the title, authors,
  abstract and url of every paper, in the original order; so on such lists the plain
  text determines the list, with its order and its repetitions.
\<close>

theorem text_round_trip:
  assumes "\<not> prefix ''-'' d" and "list_all one_line_record ps"
  shows "parse_email_text d (build_email_text repr d ps) = ps
       \<and> (\<forall>qs. list_all one_line_record qs
              \<longrightarrow> build_email_text repr d qs = build_email_text repr d ps \<longrightarrow> qs = ps)"
proof (intro conjI allI impI)
  show "parse_email_text d (build_email_text repr d ps) = ps"
    by (rule parse_build_email_text [OF assms])
next
  fix qs
  assume q: "list_all one_line_record qs"
    and e: "build_email_text repr d qs = build_email_text repr d ps"
  have "qs = parse_email_text d (build_email_text repr d qs)"
    by (rule parse_build_email_text [OF assms(1) q, symmetric])
  also have "\<dots> = ps"
    unfolding e by (rule parse_build_email_text [OF assms])
  finally show "qs = ps" .
qed

theorem text_round_trip_witness:
  "parse_email_text ''2024-01-01''
     (build_email_text repr_stub ''2024-01-01''
        [\<lparr>title = JStr ''T'', authors = JStr ''Ann, Bo'', abstract = JStr [], url = JStr ''u''\<rparr>,
         \<lparr>title = JStr [], authors = JStr [], abstract = JStr ''- b'', url = JStr []\<rparr>])
   = [\<lparr>title = JStr ''T'', authors = JStr ''Ann, Bo'', abstract = JStr [], url = JStr ''u''\<rparr>,
      \<lparr>title = JStr [], authors = JStr [], abstract = JStr ''- b'', url = JStr []\<rparr>]"
  using text_round_trip [of "''2024-01-01''"
      "[\<lparr>title = JStr ''T'', authors = JStr ''Ann, Bo'', abstract = JStr [], url = JStr ''u''\<rparr>,
        \<lparr>title = JStr [], authors = JStr [], abstract = JStr ''- b'', url = JStr []\<rparr>]" repr_stub]
  by (simp add: one_line_record_def)

section \<open>Properties of the rich text\<close>

lemma build_email_html_cards:
  "ps \<noteq> [] \<Longrightarrow>
   build_email_html repr d ps = html_head d @ concat (map (html_card repr) ps) @ html_tail"
  by (simp add: build_email_html_def)

text \<open>
  C8: in the rich text, the card of a paper whose url is the empty string has a title
  element that is not a link, and the card of a paper whose url is a string that is not
  empty has a link as its title element, whose target is exactly that url. The cards
  stand in the order of the papers.
\<close>

theorem html_title_element:
  assumes "url p = JStr u"
  shows \<open>build_email_html repr d (ps @ p # qs)
       = html_head d @ concat (map (html_card repr) ps)
         @ ''<div class="card">''
         @ (if u = []
            then ''<div class="paper-title">'' @ py_format repr (py_or (title p) (JStr []))
                 @ ''</div>''
            else ''<a class="paper-title" href="'' @ u @ ''" target="_blank">''
                 @ py_format repr (py_or (title p) (JStr [])) @ ''</a>'')
         @ ''<div class="meta">'' @ py_format repr (py_or (authors p) (JStr [])) @ ''</div>''
         @ ''<div class="abstract">'' @ py_format repr (py_or (abstract p) (JStr []))
         @ ''</div></div>''
         @ concat (map (html_card repr) qs) @ html_tail\<close>
proof -
  have \<open>html_card repr p = ''<div class="card">''
         @ (if u = []
            then ''<div class="paper-title">'' @ py_format repr (py_or (title p) (JStr []))
                 @ ''</div>''
            else ''<a class="paper-title" href="'' @ u @ ''" target="_blank">''
                 @ py_format repr (py_or (title p) (JStr [])) @ ''</a>'')
         @ ''<div class="meta">'' @ py_format repr (py_or (authors p) (JStr [])) @ ''</div>''
         @ ''<div class="abstract">'' @ py_format repr (py_or (abstract p) (JStr []))
         @ ''</div></div>''\<close>
    using assms by (simp add: html_card_def title_html_def py_or_def Let_def)
  then show ?thesis
    by (simp add: build_email_html_cards)
qed

theorem html_title_element_witness:
  \<open>build_email_html repr_stub ''2024-01-01''
       [\<lparr>title = JStr ''T'', authors = JStr ''A'', abstract = JStr ''B'', url = JStr ''https://x.org/1''\<rparr>]
     = html_head ''2024-01-01''
       @ ''<div class="card"><a class="paper-title" href="https://x.org/1" target="_blank">T</a>''
       @ ''<div class="meta">A</div><div class="abstract">B</div></div>'' @ html_tail
   \<and> build_email_html repr_stub ''2024-01-01''
       [\<lparr>title = JStr ''T'', authors = JStr ''A'', abstract = JStr ''B'', url = JStr []\<rparr>]
     = html_head ''2024-01-01''
       @ ''<div class="card"><div class="paper-title">T</div>''
       @ ''<div class="meta">A</div><div class="abstract">B</div></div>'' @ html_tail\<close>
  using html_title_element [of "\<lparr>title = JStr ''T'', authors = JStr ''A'', abstract = JStr ''B'',
        url = JStr ''https://x.org/1''\<rparr>" "''https://x.org/1''" repr_stub "''2024-01-01''" "[]" "[]"]
    html_title_element [of "\<lparr>title = JStr ''T'', authors = JStr ''A'', abstract = JStr ''B'',
        url = JStr []\<rparr>" "[]" repr_stub "''2024-01-01''" "[]" "[]"]
  by (simp add: py_or_def)

section \<open>Properties of the dispatch\<close>

lemma send_email_unreadable:
  "load_config py_int py_strip env = Inl e \<Longrightarrow>
   send_email py_int py_strip ok env subject html_body text_body = (Inl e, [])"
  by (simp add: send_email_def)

lemma ascii_int_abc: "ascii_int ''abc'' = Inl ValueError"
  by (simp add: ascii_int_def int_space_def ascii_digit_def)

text \<open>
  C9, as stated: whenever the host, the port, the user name, the password or the parsed
  list of recipients is empty or unset, send_email fails with the configuration error
  and connects nowhere. With no host, no recipient and a port setting that is not a
  number, the failure is the ValueError of line 136, raised before the check of line
  142 (still without a connection).
\<close>

theorem send_email_bad_port_counterexample:
  "getenv bad_port_env ''SMTP_HOST'' [] = []
   \<and> parse_recipients ascii_strip (getenv bad_port_env ''MAIL_TO'' []) = []
   \<and> send_email ascii_int ascii_strip accept_all bad_port_env ''subject'' ''<p>html</p>'' ''text''
       = (Inl ValueError, [])"
  by (simp add: send_email_def load_config_def getenv_def bad_port_env_def parse_recipients_def
      ascii_strip_def ascii_int_abc)

text \<open>
  C9, amended: whenever the settings can be read (the port setting is unset, empty or
  a text that \<^verbatim>\<open>int\<close> accepts) and the host, the port (zero counting as unset), the user
  name, the password or the parsed list of recipients is empty or unset, send_email
  fails with the configuration error and makes no call to the mail server. This holds
  whatever \<^verbatim>\<open>int\<close> and \<^verbatim>\<open>strip\<close> accept and remove.
\<close>

theorem send_email_incomplete_settings:
  assumes "load_config py_int py_strip env = Inr cfg"
    and "smtp_host cfg = [] \<or> smtp_port cfg = 0 \<or> smtp_user cfg = [] \<or> smtp_pass cfg = []
         \<or> recipients cfg = []"
  shows "send_email py_int py_strip ok env subject html_body text_body = (Inl ConfigurationError, [])"
  using assms by (simp add: send_email_def)

theorem send_email_incomplete_settings_witness:
  "send_email ascii_int ascii_strip accept_all no_recipient_env ''subject'' ''<p>html</p>'' ''text''
     = (Inl ConfigurationError, [])"
proof -
  have "ascii_int ''587'' = Inr 587"
    by (simp add: ascii_int_def int_space_def ascii_digit_def digits_value_def)
  moreover have "parse_recipients ascii_strip '' ; , '' = []"
    by (simp add: parse_recipients_def ascii_strip_def strip_space_def)
  ultimately have l: "load_config ascii_int ascii_strip no_recipient_env
     = Inr \<lparr>smtp_host = ''smtp.example.org'', smtp_port = 587, smtp_user = ''bot'',
            smtp_pass = ''secret'', mail_from = ''bot'', recipients = []\<rparr>"
    by (simp add: load_config_def getenv_def no_recipient_env_def Let_def)
  from send_email_incomplete_settings [OF l, of accept_all "''subject''" "''<p>html</p>''" "''text''"]
  show ?thesis
    by simp
qed

end
